theory Spec2Isabelle
  imports Complex_Main "HOL-Library.Sublist"
begin

section \<open>Python values used by the analyzer\<close>

text \<open>
  Exceptions of the source are values of type \<open>error\<close>; a function that can raise returns
  \<open>error + 'a\<close> with \<open>Inl\<close> for the exception.
\<close>

datatype error =
    KeyError string
  | AttributeError string
  | ValueError
  | TypeError
  | LinAlgError

text \<open>
  A NumPy double is modelled as an exact real or one of the IEEE special values. Rounding,
  overflow and the sign of zero are not modelled; what is modelled is that arithmetic on
  \<open>np.float64\<close> does not raise on a zero divisor but yields an infinity or NaN, and how
  these values flow through the later arithmetic and comparisons.
\<close>

datatype npfloat = Fin real | PosInf | NegInf | NaN

fun fneg :: "npfloat \<Rightarrow> npfloat" where
  "fneg (Fin a) = Fin (- a)"
| "fneg PosInf = NegInf"
| "fneg NegInf = PosInf"
| "fneg NaN = NaN"

fun fadd :: "npfloat \<Rightarrow> npfloat \<Rightarrow> npfloat" where
  "fadd (Fin a) (Fin b) = Fin (a + b)"
| "fadd NaN _ = NaN"
| "fadd _ NaN = NaN"
| "fadd PosInf NegInf = NaN"
| "fadd NegInf PosInf = NaN"
| "fadd PosInf _ = PosInf"
| "fadd _ PosInf = PosInf"
| "fadd NegInf _ = NegInf"
| "fadd _ NegInf = NegInf"

definition fsub :: "npfloat \<Rightarrow> npfloat \<Rightarrow> npfloat" where
  "fsub a b = fadd a (fneg b)"

fun scale_inf :: "real \<Rightarrow> npfloat \<Rightarrow> npfloat" where
  "scale_inf a v = (if a = 0 then NaN else if 0 < a then v else fneg v)"

fun fmul :: "npfloat \<Rightarrow> npfloat \<Rightarrow> npfloat" where
  "fmul (Fin a) (Fin b) = Fin (a * b)"
| "fmul NaN _ = NaN"
| "fmul _ NaN = NaN"
| "fmul (Fin a) PosInf = scale_inf a PosInf"
| "fmul (Fin a) NegInf = scale_inf a NegInf"
| "fmul PosInf (Fin b) = scale_inf b PosInf"
| "fmul NegInf (Fin b) = scale_inf b NegInf"
| "fmul PosInf PosInf = PosInf"
| "fmul PosInf NegInf = NegInf"
| "fmul NegInf PosInf = NegInf"
| "fmul NegInf NegInf = PosInf"

fun fdiv :: "npfloat \<Rightarrow> npfloat \<Rightarrow> npfloat" where
  "fdiv (Fin a) (Fin b) =
     (if b = 0 then (if a = 0 then NaN else if 0 < a then PosInf else NegInf)
      else Fin (a / b))"
| "fdiv NaN _ = NaN"
| "fdiv _ NaN = NaN"
| "fdiv (Fin a) PosInf = Fin 0"
| "fdiv (Fin a) NegInf = Fin 0"
| "fdiv PosInf (Fin b) = (if 0 \<le> b then PosInf else NegInf)"
| "fdiv NegInf (Fin b) = (if 0 \<le> b then NegInf else PosInf)"
| "fdiv PosInf PosInf = NaN"
| "fdiv PosInf NegInf = NaN"
| "fdiv NegInf PosInf = NaN"
| "fdiv NegInf NegInf = NaN"

text \<open>\<open>a >= b\<close> on doubles: every comparison with NaN is false.\<close>

fun fge :: "npfloat \<Rightarrow> npfloat \<Rightarrow> bool" where
  "fge (Fin a) (Fin b) = (b \<le> a)"
| "fge NaN _ = False"
| "fge _ NaN = False"
| "fge PosInf _ = True"
| "fge _ NegInf = True"
| "fge NegInf _ = False"
| "fge _ PosInf = False"

text \<open>\<open>a < b\<close> on doubles, used by the sort.\<close>

fun flt :: "npfloat \<Rightarrow> npfloat \<Rightarrow> bool" where
  "flt (Fin a) (Fin b) = (a < b)"
| "flt NaN _ = False"
| "flt _ NaN = False"
| "flt PosInf _ = False"
| "flt _ NegInf = False"
| "flt NegInf _ = True"
| "flt _ PosInf = True"

section \<open>The names of the numpy module\<close>

text \<open>
  The source applies two attributes of the module \<open>numpy\<close> to a single number: \<open>np.sqrt\<close>
  and \<open>np.erf\<close>. NumPy's namespace has \<open>sqrt\<close> and has no \<open>erf\<close> (the error function
  is provided by \<open>math\<close> and by \<open>scipy.special\<close>, neither of which the source imports), so
  the attribute lookup \<open>np.erf\<close> raises \<open>AttributeError\<close>.
\<close>

fun np_sqrt :: "npfloat \<Rightarrow> npfloat" where
  "np_sqrt (Fin x) = (if 0 \<le> x then Fin (sqrt x) else NaN)"
| "np_sqrt PosInf = PosInf"
| "np_sqrt NegInf = NaN"
| "np_sqrt NaN = NaN"

definition numpy_functions :: "(string \<times> (npfloat \<Rightarrow> npfloat)) list" where
  "numpy_functions = [(''sqrt'', np_sqrt)]"

definition np_getattr :: "string \<Rightarrow> error + (npfloat \<Rightarrow> npfloat)" where
  "np_getattr attr =
     (case map_of numpy_functions attr of
        None \<Rightarrow> Inl (AttributeError attr)
      | Some f \<Rightarrow> Inr f)"

section \<open>StatModel: probability and expected value\<close>

text \<open>
  Line 161 of \<open>_calculate_probability\<close>: the quotient is a division of doubles, so a zero
  \<open>adjusted_std\<close> does not raise; there is no test of the divisor in the source.
\<close>

definition z_score_of :: "real \<Rightarrow> real \<Rightarrow> real \<Rightarrow> npfloat" where
  "z_score_of adjusted_mean adjusted_std line = fdiv (Fin (line - adjusted_mean)) (Fin adjusted_std)"

text \<open>
  Line 162: in the call \<open>np.erf(z_score / np.sqrt(2))\<close> the callee \<open>np.erf\<close> is evaluated
  first, then the argument with its lookup of \<open>np.sqrt\<close>, then the call and the arithmetic
  around it.
\<close>

definition calculate_probability :: "real \<Rightarrow> real \<Rightarrow> real \<Rightarrow> error + npfloat" where
  "calculate_probability adjusted_mean adjusted_std line =
     (let z_score = z_score_of adjusted_mean adjusted_std line
      in case np_getattr ''erf'' of
           Inl e \<Rightarrow> Inl e
         | Inr erf \<Rightarrow>
             (case np_getattr ''sqrt'' of
                Inl e \<Rightarrow> Inl e
              | Inr sqrt_fn \<Rightarrow>
                  Inr (fsub (Fin 1)
                         (fmul (Fin 0.5) (fadd (Fin 1) (erf (fdiv z_score (sqrt_fn (Fin 2)))))))))"

definition calculate_ev :: "npfloat \<Rightarrow> real \<Rightarrow> npfloat" where
  "calculate_ev probability line =
     (let odds = line / 100
      in fsub (fmul probability (Fin odds)) (fsub (Fin 1) probability))"

section \<open>Sample statistics\<close>

text \<open>\<open>np.mean\<close> and \<open>np.std\<close> (population standard deviation, \<open>ddof = 0\<close>).\<close>

definition np_mean :: "real list \<Rightarrow> real" where
  "np_mean xs = sum_list xs / real (length xs)"

definition np_std :: "real list \<Rightarrow> real" where
  "np_std xs = sqrt (np_mean (map (\<lambda>x. \<bar>x - np_mean xs\<bar>\<^sup>2) xs))"

text \<open>
  \<open>np.polyfit(x, y, 1)[0]\<close> is the slope of the least-squares line. For two or more
  points with distinct abscissae the least-squares solution is unique and given by the
  closed form below.
\<close>

definition polyfit_slope :: "real list \<Rightarrow> real list \<Rightarrow> real" where
  "polyfit_slope xs ys =
     (let xbar = np_mean xs; ybar = np_mean ys
      in sum_list (map2 (\<lambda>x y. (x - xbar) * (y - ybar)) xs ys)
           / sum_list (map (\<lambda>x. (x - xbar)\<^sup>2) xs))"

text \<open>
  \<open>_calculate_trend\<close> fits against \<open>range(len(historical))\<close>. The library rejects an
  empty vector with \<open>TypeError\<close>. For a single sample the line is not determined: the
  only abscissa is 0, the column scaling of the design matrix divides 0 by 0, and the
  least-squares solver is taken to report failure (\<open>LinAlgError\<close>). The source tests for
  neither case; the statements below that concern one-sample histories only use that such
  a call does not return \<open>None\<close>.
\<close>

definition calculate_trend :: "real list \<Rightarrow> error + real" where
  "calculate_trend historical =
     (let n = length historical
      in if n = 0 then Inl TypeError
         else if n = 1 then Inl LinAlgError
         else Inr (polyfit_slope (map real [0..<n]) historical))"

definition calculate_matchup_factor :: "'pd \<Rightarrow> real" where
  "calculate_matchup_factor player_data = 1.0"

section \<open>Catalog and tables\<close>

record PropType =
  name :: string
  stat_key :: string
  threshold :: "real option"
  prob_threshold :: real
  alt_lines :: "real list option"
  category :: string

text \<open>The dataclass constructor as the catalog calls it: the other fields keep their defaults.\<close>

definition new_prop :: "string \<Rightarrow> string \<Rightarrow> real list option \<Rightarrow> string \<Rightarrow> PropType" where
  "new_prop nm key lines cat =
     \<lparr>name = nm, stat_key = key, threshold = None, prob_threshold = 0.85,
      alt_lines = lines, category = cat\<rparr>"

definition SPORTS_PROPS :: "(string \<times> (string \<times> PropType list) list) list" where
  "SPORTS_PROPS =
     [(''football'',
        [(''passing'',
            [new_prop ''Pass Yards'' ''passing_yards'' (Some [200.5, 225.5, 250.5, 275.5, 300.5]) ''standard'',
             new_prop ''Pass TDs'' ''passing_tds'' (Some [0.5, 1.5, 2.5, 3.5]) ''standard'',
             new_prop ''Pass Attempts'' ''pass_attempts'' (Some [25.5, 30.5, 35.5, 40.5]) ''standard'',
             new_prop ''Pass Completions'' ''pass_completions'' (Some [15.5, 20.5, 25.5, 30.5]) ''standard'',
             new_prop ''Interceptions'' ''interceptions'' (Some [0.5, 1.5]) ''standard'',
             new_prop ''Longest Completion'' ''longest_completion'' (Some [20.5, 25.5, 30.5, 35.5]) ''standard'',
             new_prop ''First TD Pass'' ''first_td_pass'' None ''special'']),
         (''rushing'',
            [new_prop ''Rush Yards'' ''rushing_yards'' (Some [50.5, 75.5, 100.5]) ''standard'',
             new_prop ''Rush TDs'' ''rushing_tds'' (Some [0.5, 1.5]) ''standard'']),
         (''receiving'',
            [new_prop ''Rec Yards'' ''receiving_yards'' (Some [50.5, 75.5, 100.5]) ''standard'',
             new_prop ''Rec TDs'' ''receiving_tds'' (Some [0.5, 1.5]) ''standard''])]),
      (''basketball'',
        [(''scoring'',
            [new_prop ''Points'' ''points'' (Some [15.5, 20.5, 25.5]) ''standard'',
             new_prop ''Rebounds'' ''rebounds'' (Some [5.5, 7.5, 10.5]) ''standard'',
             new_prop ''Assists'' ''assists'' (Some [4.5, 6.5, 8.5]) ''standard''])])]"

definition correlation_matrix ::
  "(string \<times> (string \<times> ((string \<times> string) \<times> real) list) list) list" where
  "correlation_matrix =
     [(''football'',
        [(''passing'',
            [((''passing_yards'', ''pass_attempts''), 0.8),
             ((''passing_yards'', ''pass_completions''), 0.85),
             ((''pass_attempts'', ''pass_completions''), 0.9)])])]"

datatype vf_entry = Factor real | ParlayFactors "(nat \<times> real) list"

definition variance_factors :: "(string \<times> vf_entry) list" where
  "variance_factors =
     [(''standard'', Factor 1.0),
      (''alt_lines'', Factor 1.2),
      (''special'', Factor 1.5),
      (''parlays'', ParlayFactors [(2, 1.1), (3, 1.2), (4, 1.3), (5, 1.4)])]"

section \<open>Evaluating one prop at one line\<close>

text \<open>The dictionary that \<open>_analyze_single_prop\<close> returns, with its seven fixed keys.\<close>

record prop_evaluation =
  prop_name :: string
  line :: real
  probability :: npfloat
  ev :: npfloat
  trend :: real
  category :: string
  stat_key :: string

text \<open>
  \<open>_get_historical_data\<close> is a placeholder in the source (random samples, to be replaced by
  the real feed), so the history feed is a parameter \<open>feed\<close> of the model. The result is
  \<open>Inr None\<close> where the source returns \<open>None\<close>, \<open>Inr (Some d)\<close> where it returns the
  dictionary and \<open>Inl e\<close> where it raises.
\<close>

definition analyze_single_prop ::
  "('pd \<Rightarrow> string \<Rightarrow> real list) \<Rightarrow> 'pd \<Rightarrow> PropType \<Rightarrow> real \<Rightarrow> string \<Rightarrow> string
     \<Rightarrow> error + prop_evaluation option" where
  "analyze_single_prop feed player_data prop lin sport cat =
     (let historical = feed player_data (PropType.stat_key prop)
      in if historical = [] then Inr None
         else
           let mean = np_mean historical;
               std = np_std historical
           in case calculate_trend historical of
                Inl e \<Rightarrow> Inl e
              | Inr trnd \<Rightarrow>
                  let matchup_factor = calculate_matchup_factor player_data
                  in case map_of variance_factors (PropType.category prop) of
                       None \<Rightarrow> Inl (KeyError (PropType.category prop))
                     | Some (ParlayFactors _) \<Rightarrow> Inl TypeError
                     | Some (Factor variance_factor) \<Rightarrow>
                         let adjusted_mean = mean * matchup_factor * (1 + trnd);
                             adjusted_std = std * variance_factor
                         in case calculate_probability adjusted_mean adjusted_std lin of
                              Inl e \<Rightarrow> Inl e
                            | Inr prob \<Rightarrow>
                                let e = calculate_ev prob lin
                                in Inr (Some \<lparr>prop_name = PropType.name prop, line = lin,
                                               probability = prob, ev = e, trend = trnd,
                                               category = cat,
                                               stat_key = PropType.stat_key prop\<rparr>))"

section \<open>PropEvaluator\<close>

text \<open>\<open>prop.alt_lines or [prop.threshold]\<close>: an absent or empty list of lines is falsy.\<close>

definition candidate_lines :: "PropType \<Rightarrow> real option list" where
  "candidate_lines prop =
     (case alt_lines prop of
        None \<Rightarrow> [threshold prop]
      | Some ls \<Rightarrow> if ls = [] then [threshold prop] else map Some ls)"

text \<open>The three nested loops of \<open>analyze_props\<close>, threading \<open>valid_props\<close>.\<close>

fun lines_loop ::
  "('pd \<Rightarrow> string \<Rightarrow> real list) \<Rightarrow> 'pd \<Rightarrow> PropType \<Rightarrow> string \<Rightarrow> string \<Rightarrow> real option list
     \<Rightarrow> prop_evaluation list \<Rightarrow> error + prop_evaluation list" where
  "lines_loop feed pd prop sport cat [] valid_props = Inr valid_props"
| "lines_loop feed pd prop sport cat (None # ls) valid_props =
     lines_loop feed pd prop sport cat ls valid_props"
| "lines_loop feed pd prop sport cat (Some lin # ls) valid_props =
     (case analyze_single_prop feed pd prop lin sport cat of
        Inl e \<Rightarrow> Inl e
      | Inr None \<Rightarrow> lines_loop feed pd prop sport cat ls valid_props
      | Inr (Some analysis) \<Rightarrow>
          if fge (probability analysis) (Fin (prob_threshold prop))
          then lines_loop feed pd prop sport cat ls (valid_props @ [analysis])
          else lines_loop feed pd prop sport cat ls valid_props)"

fun props_loop ::
  "('pd \<Rightarrow> string \<Rightarrow> real list) \<Rightarrow> 'pd \<Rightarrow> string \<Rightarrow> string \<Rightarrow> PropType list
     \<Rightarrow> prop_evaluation list \<Rightarrow> error + prop_evaluation list" where
  "props_loop feed pd sport cat [] valid_props = Inr valid_props"
| "props_loop feed pd sport cat (prop # props) valid_props =
     (case lines_loop feed pd prop sport cat (candidate_lines prop) valid_props of
        Inl e \<Rightarrow> Inl e
      | Inr valid_props' \<Rightarrow> props_loop feed pd sport cat props valid_props')"

fun categories_loop ::
  "('pd \<Rightarrow> string \<Rightarrow> real list) \<Rightarrow> 'pd \<Rightarrow> string \<Rightarrow> (string \<times> PropType list) list
     \<Rightarrow> prop_evaluation list \<Rightarrow> error + prop_evaluation list" where
  "categories_loop feed pd sport [] valid_props = Inr valid_props"
| "categories_loop feed pd sport ((cat, props) # rest) valid_props =
     (case props_loop feed pd sport cat props valid_props of
        Inl e \<Rightarrow> Inl e
      | Inr valid_props' \<Rightarrow> categories_loop feed pd sport rest valid_props')"

text \<open>
  The names bound in the body of class \<open>ComprehensiveSportsAnalyzer\<close> and the attributes
  that \<open>__init__\<close> sets on the instance. Looking up any other name on \<open>self\<close> (apart
  from the dunder attributes every object has) raises \<open>AttributeError\<close>.
\<close>

definition class_attributes :: "string list" where
  "class_attributes =
     [''SPORTS_PROPS'', ''__init__'', ''_initialize_correlation_matrix'',
      ''_initialize_variance_factors'', ''analyze_props'', ''generate_optimal_parlays'',
      ''_analyze_single_prop'', ''_analyze_parlay'', ''_get_historical_data'',
      ''_calculate_trend'', ''_calculate_matchup_factor'', ''_calculate_probability'',
      ''_calculate_ev'', ''_calculate_total_correlation'',
      ''_calculate_combined_probability'', ''_calculate_combined_ev'']"

definition instance_attributes :: "string list" where
  "instance_attributes = [''client'', ''correlation_matrix'', ''variance_factors'']"

definition self_getattr :: "string \<Rightarrow> error + unit" where
  "self_getattr attr =
     (if attr \<in> set instance_attributes \<or> attr \<in> set class_attributes then Inr ()
      else Inl (AttributeError attr))"

text \<open>\<open>dict.get(key, default)\<close>.\<close>

definition dict_get :: "('k \<times> 'v) list \<Rightarrow> 'k \<Rightarrow> 'v \<Rightarrow> 'v" where
  "dict_get d k dflt = (case map_of d k of None \<Rightarrow> dflt | Some v \<Rightarrow> v)"

text \<open>
  \<open>self.correlation_matrix['football']['passing']\<close>: both subscripts are keys of the
  literal above, so these two lookups cannot raise.
\<close>

definition football_passing :: "((string \<times> string) \<times> real) list" where
  "football_passing = dict_get (dict_get correlation_matrix ''football'' []) ''passing'' []"

text \<open>
  The coefficient recorded for an unordered pair of statistic keys: the entry of the table
  under the pair in either order.
\<close>

definition recorded_correlation :: "string \<Rightarrow> string \<Rightarrow> real option" where
  "recorded_correlation a b =
     (case map_of football_passing (a, b) of
        Some c \<Rightarrow> Some c
      | None \<Rightarrow> map_of football_passing (b, a))"

text \<open>
  Modelled from the spec: the correlation filter \<open>_filter_correlated_props\<close> that line 93
  calls; the class defines no method of that name, so only the spec describes it. Of two
  kept evaluations whose statistic keys have a recorded coefficient strictly below
  \<open>min_correlation\<close>, the one with the lower probability is removed.
\<close>

definition filter_correlated_props :: "prop_evaluation list \<Rightarrow> real \<Rightarrow> prop_evaluation list" where
  "filter_correlated_props valid_props min_correlation =
     filter (\<lambda>p. \<not> list_ex (\<lambda>q.
        (case recorded_correlation (prop_evaluation.stat_key p) (prop_evaluation.stat_key q) of
           None \<Rightarrow> False
         | Some c \<Rightarrow> c < min_correlation) \<and> flt (probability p) (probability q)) valid_props)
       valid_props"

text \<open>
  \<open>analyze_props\<close>: the catalog lookup, the loops, and the call of the filter through
  attribute lookup on \<open>self\<close>.
\<close>

definition analyze_props ::
  "('pd \<Rightarrow> string \<Rightarrow> real list) \<Rightarrow> 'pd \<Rightarrow> string \<Rightarrow> real \<Rightarrow> error + prop_evaluation list" where
  "analyze_props feed player_data sport min_correlation =
     (case map_of SPORTS_PROPS sport of
        None \<Rightarrow> Inl (KeyError sport)
      | Some cats \<Rightarrow>
          (case categories_loop feed player_data sport cats [] of
             Inl e \<Rightarrow> Inl e
           | Inr valid_props \<Rightarrow>
               (case self_getattr ''_filter_correlated_props'' of
                  Inl e \<Rightarrow> Inl e
                | Inr _ \<Rightarrow> Inr (filter_correlated_props valid_props min_correlation))))"

section \<open>ParlayComposer\<close>

text \<open>
  \<open>_calculate_total_correlation\<close>: a sum over the pairs \<open>(p, p2)\<close> of legs with
  \<open>p != p2\<close> (comparison of the dictionaries by value), each looked up in the table under
  the ordered tuple of statistic keys, with default 0. Two legs that compare equal have the
  same statistic key, and the table has no entry for a key paired with itself, so the sum
  does not depend on how equal legs are told apart.
\<close>

definition calculate_total_correlation :: "prop_evaluation list \<Rightarrow> real" where
  "calculate_total_correlation props =
     sum_list [dict_get football_passing
                 (prop_evaluation.stat_key p, prop_evaluation.stat_key p2) 0.
               p \<leftarrow> props, p2 \<leftarrow> props, p \<noteq> p2]"

definition calculate_combined_probability :: "npfloat list \<Rightarrow> real \<Rightarrow> npfloat" where
  "calculate_combined_probability individual_probs total_correlation =
     (let combined = foldl fmul (Fin 1.0) individual_probs
      in fmul combined (Fin (1 + total_correlation)))"

definition calculate_combined_ev :: "prop_evaluation list \<Rightarrow> npfloat" where
  "calculate_combined_ev props = foldl fadd (Fin 0) (map ev props)"

text \<open>
  The parlay is a dictionary with exactly the keys \<open>combined_probability\<close>, \<open>ev\<close> and
  \<open>props\<close>; subscripting a dictionary with a key it does not hold raises \<open>KeyError\<close>.
\<close>

datatype pyval = PyFloat npfloat | PyStrList "string list"

type_synonym pydict = "(string \<times> pyval) list"

definition getitem :: "pydict \<Rightarrow> string \<Rightarrow> error + pyval" where
  "getitem d k = (case map_of d k of None \<Rightarrow> Inl (KeyError k) | Some v \<Rightarrow> Inr v)"

definition analyze_parlay :: "prop_evaluation list \<Rightarrow> pydict" where
  "analyze_parlay props =
     (let total_correlation = calculate_total_correlation props;
          individual_probs = map probability props;
          combined_probability = calculate_combined_probability individual_probs total_correlation;
          e = calculate_combined_ev props
      in [(''combined_probability'', PyFloat combined_probability),
          (''ev'', PyFloat e),
          (''props'', PyStrList (map prop_name props))])"

text \<open>
  \<open>itertools.combinations(xs, r)\<close>: the \<open>r\<close>-element selections in position order; a
  negative \<open>r\<close> is rejected with \<open>ValueError\<close>.
\<close>

fun combs :: "'a list \<Rightarrow> nat \<Rightarrow> 'a list list" where
  "combs xs 0 = [[]]"
| "combs [] (Suc k) = []"
| "combs (x # xs) (Suc k) = map ((#) x) (combs xs k) @ combs xs (Suc k)"

definition combinations :: "'a list \<Rightarrow> int \<Rightarrow> error + 'a list list" where
  "combinations xs r = (if r < 0 then Inl ValueError else Inr (combs xs (nat r)))"

text \<open>
  The inner loop of \<open>generate_optimal_parlays\<close>: each combination is analysed and the
  parlay is subscripted with \<open>'probability'\<close> for the comparison with \<open>min_probability\<close>
  (an ordering comparison of a list with a float is a \<open>TypeError\<close>).
\<close>

fun combo_loop :: "prop_evaluation list list \<Rightarrow> real \<Rightarrow> pydict list \<Rightarrow> error + pydict list" where
  "combo_loop [] min_probability parlays = Inr parlays"
| "combo_loop (combo # rest) min_probability parlays =
     (let parlay = analyze_parlay combo
      in case getitem parlay ''probability'' of
           Inl e \<Rightarrow> Inl e
         | Inr (PyStrList _) \<Rightarrow> Inl TypeError
         | Inr (PyFloat x) \<Rightarrow>
             if fge x (Fin min_probability)
             then combo_loop rest min_probability (parlays @ [parlay])
             else combo_loop rest min_probability parlays)"

fun picks_loop ::
  "prop_evaluation list \<Rightarrow> int list \<Rightarrow> real \<Rightarrow> pydict list \<Rightarrow> error + pydict list" where
  "picks_loop valid_props [] min_probability parlays = Inr parlays"
| "picks_loop valid_props (n # ns) min_probability parlays =
     (case combinations valid_props n of
        Inl e \<Rightarrow> Inl e
      | Inr combos \<Rightarrow>
          (case combo_loop combos min_probability parlays of
             Inl e \<Rightarrow> Inl e
           | Inr parlays' \<Rightarrow> picks_loop valid_props ns min_probability parlays'))"

text \<open>
  \<open>sorted(parlays, key=lambda x: x['ev'], reverse=True)\<close>: the keys are taken first, then
  a stable descending sort, written as insertion of each element behind the elements whose
  key is not smaller.
\<close>

fun ev_keys :: "pydict list \<Rightarrow> error + (npfloat \<times> pydict) list" where
  "ev_keys [] = Inr []"
| "ev_keys (p # ps) =
     (case getitem p ''ev'' of
        Inl e \<Rightarrow> Inl e
      | Inr (PyStrList _) \<Rightarrow> Inl TypeError
      | Inr (PyFloat k) \<Rightarrow>
          (case ev_keys ps of Inl e \<Rightarrow> Inl e | Inr r \<Rightarrow> Inr ((k, p) # r)))"

fun insert_desc :: "npfloat \<times> 'a \<Rightarrow> (npfloat \<times> 'a) list \<Rightarrow> (npfloat \<times> 'a) list" where
  "insert_desc x [] = [x]"
| "insert_desc x (y # ys) =
     (if flt (fst y) (fst x) then x # y # ys else y # insert_desc x ys)"

definition sorted_by_ev_desc :: "pydict list \<Rightarrow> error + pydict list" where
  "sorted_by_ev_desc parlays =
     (case ev_keys parlays of
        Inl e \<Rightarrow> Inl e
      | Inr keyed \<Rightarrow> Inr (map snd (foldl (\<lambda>acc x. insert_desc x acc) [] keyed)))"

definition generate_optimal_parlays ::
  "prop_evaluation list \<Rightarrow> int \<Rightarrow> int \<Rightarrow> real \<Rightarrow> error + pydict list" where
  "generate_optimal_parlays valid_props min_picks max_picks min_probability =
     (case picks_loop valid_props [min_picks..max_picks] min_probability [] of
        Inl e \<Rightarrow> Inl e
      | Inr parlays \<Rightarrow> sorted_by_ev_desc parlays)"

section \<open>Names used in the statements\<close>


text \<open>
  The table lookup of \<open>_calculate_total_correlation\<close> for an ordered pair of keys, and
  the coefficient of the unordered pair (0 when the table has no entry).
\<close>

definition ordered_coefficient :: "string \<Rightarrow> string \<Rightarrow> real" where
  "ordered_coefficient a b = dict_get football_passing (a, b) 0"

definition pair_coefficient :: "string \<Rightarrow> string \<Rightarrow> real" where
  "pair_coefficient a b = (case recorded_correlation a b of None \<Rightarrow> 0 | Some c \<Rightarrow> c)"


section \<open>Example inputs\<close>

text \<open>
  A definition with two lines and cutoff 0.5, as the dataclass constructor would build it
  from \<open>PropType('X', 'stat_x', alt_lines=[10.0, 20.0], prob_threshold=0.5)\<close>.
\<close>

definition prop_x :: PropType where
  "prop_x = \<lparr>name = ''X'', stat_key = ''stat_x'', threshold = None, prob_threshold = 0.5,
      alt_lines = Some [10.0, 20.0], category = ''standard''\<rparr>"

text \<open>Three evaluations of passing statistics with finite probabilities and expected values.\<close>

definition leg :: "string \<Rightarrow> string \<Rightarrow> real \<Rightarrow> real \<Rightarrow> real \<Rightarrow> prop_evaluation" where
  "leg nm key l p e =
     \<lparr>prop_name = nm, line = l, probability = Fin p, ev = Fin e, trend = 0,
      category = ''passing'', stat_key = key\<rparr>"

definition leg_yards :: prop_evaluation where
  "leg_yards = leg ''Pass Yards'' ''passing_yards'' 200.5 0.9 0.1"

definition leg_attempts :: prop_evaluation where
  "leg_attempts = leg ''Pass Attempts'' ''pass_attempts'' 25.5 0.9 0.2"


section \<open>Lemmas about StatModel\<close>

text \<open>
  The lookup of \<open>erf\<close> in the numpy namespace fails, so \<open>_calculate_probability\<close>
  raises on every input, after the division of line 161.
\<close>

lemma erf_is_not_exported: "np_getattr ''erf'' = Inl (AttributeError ''erf'')"
  by (simp add: np_getattr_def numpy_functions_def)

lemma calculate_probability_raises:
  "calculate_probability m s l = Inl (AttributeError ''erf'')"
  by (simp add: calculate_probability_def erf_is_not_exported)


lemma np_std_short: "length xs < 2 \<Longrightarrow> np_std xs = 0"
proof (cases xs)
  case Nil
  then show ?thesis by (simp add: np_std_def np_mean_def)
next
  case (Cons x ys)
  assume "length xs < 2"
  with Cons have "ys = []" by simp
  with Cons show ?thesis by (simp add: np_std_def np_mean_def)
qed

text \<open>
  With two or more samples and a numeric variance factor the evaluation reaches line 124,
  where the probability computation raises.
\<close>

lemma analyze_single_prop_raises:
  assumes vf: "map_of variance_factors (PropType.category prop) = Some (Factor vf)"
    and len: "2 \<le> length (feed pd (PropType.stat_key prop))"
  shows "analyze_single_prop feed pd prop l sport cat = Inl (AttributeError ''erf'')"
proof -
  from len have ne: "feed pd (PropType.stat_key prop) \<noteq> []"
    by (cases "feed pd (PropType.stat_key prop)") simp_all
  from len have tr: "calculate_trend (feed pd (PropType.stat_key prop)) =
     Inr (polyfit_slope (map real [0..<length (feed pd (PropType.stat_key prop))])
                       (feed pd (PropType.stat_key prop)))"
    by (simp add: calculate_trend_def Let_def ne)
  show ?thesis
    by (simp add: analyze_single_prop_def Let_def ne tr vf calculate_probability_raises)
qed


subsection \<open>Worked inputs\<close>

text \<open>
  The history \<open>[1, 3]\<close> has deviation 1; the constant history has mean 20, deviation 0
  and slope 0, hence adjusted mean 20.
\<close>

lemma hist13_std: "np_std [1, 3] = 1" by (simp add: np_std_def np_mean_def)


lemma prop_x_factor: "map_of variance_factors (PropType.category prop_x) = Some (Factor 1)"
  by (simp add: prop_x_def variance_factors_def)

lemma lines_loop_no_history:
  assumes "feed pd (PropType.stat_key prop) = []"
  shows "lines_loop feed pd prop sport cat ls valid_props = Inr valid_props"
proof (induction ls)
  case Nil
  show ?case by simp
next
  case (Cons l ls)
  show ?case
  proof (cases l)
    case None
    with Cons show ?thesis by simp
  next
    case (Some x)
    with Cons assms show ?thesis by (simp add: analyze_single_prop_def)
  qed
qed

section \<open>Claims about StatModel\<close>

text \<open>
  C4 does not hold of the code: the source writes the formula
  \<open>1 - 0.5 * (1 + erf (z / sqrt 2))\<close>, but takes \<open>erf\<close> from the numpy namespace, which
  has no such name. \<open>_calculate_probability\<close> raises \<open>AttributeError\<close> on every input,
  and so does the evaluation of every history with a nonzero adjusted standard deviation:
  no probability is returned.
\<close>

theorem probability_not_computed:
  "calculate_probability m s l = Inl (AttributeError ''erf'') \<and>
   (map_of variance_factors (PropType.category prop) = Some (Factor vf) \<longrightarrow>
    np_std (feed pd (PropType.stat_key prop)) * vf \<noteq> 0 \<longrightarrow>
      analyze_single_prop feed pd prop l sport cat = Inl (AttributeError ''erf''))"
proof (intro conjI impI)
  show "calculate_probability m s l = Inl (AttributeError ''erf'')"
    by (rule calculate_probability_raises)
next
  assume vf: "map_of variance_factors (PropType.category prop) = Some (Factor vf)"
    and nz: "np_std (feed pd (PropType.stat_key prop)) * vf \<noteq> 0"
  from nz have "np_std (feed pd (PropType.stat_key prop)) \<noteq> 0" by auto
  then have "\<not> length (feed pd (PropType.stat_key prop)) < 2"
    using np_std_short by blast
  then have len: "2 \<le> length (feed pd (PropType.stat_key prop))" by simp
  show "analyze_single_prop feed pd prop l sport cat = Inl (AttributeError ''erf'')"
    by (rule analyze_single_prop_raises [where feed = feed and pd = pd, OF vf len])
qed

theorem probability_not_computed_witness:
  "map_of variance_factors (PropType.category prop_x) = Some (Factor 1) \<and>
   np_std [1, 3] * 1 \<noteq> 0 \<and>
   calculate_probability 6 1 7 = Inl (AttributeError ''erf'') \<and>
   analyze_single_prop (\<lambda>_ _. [1, 3]) () prop_x 7 ''basketball'' ''scoring'' =
     Inl (AttributeError ''erf'')"
  using probability_not_computed [of 6 1 7 prop_x 1 "\<lambda>_ _. [1, 3]" "()" "''basketball''" "''scoring''"]
  by (simp add: prop_x_factor hist13_std)

text \<open>
  C5: for every probability \<open>p\<close> and line, \<open>_calculate_ev\<close> returns exactly
  \<open>p * (line / 100) - (1 - p)\<close>.
\<close>

theorem expected_value_formula:
  "calculate_ev (Fin p) l = Fin (p * (l / 100) - (1 - p))"
  by (simp add: calculate_ev_def fsub_def)

text \<open>
  C7 does not hold of the code, by the defect of C4: with the history and the factors fixed
  and a positive adjusted standard deviation, the evaluation raises \<open>AttributeError\<close> at
  either line, so there are no two probabilities to compare.
\<close>

theorem no_probabilities_to_compare:
  assumes "l1 \<le> l2"
    and "map_of variance_factors (PropType.category prop) = Some (Factor vf)"
    and "0 < np_std (feed pd (PropType.stat_key prop)) * vf"
  shows "analyze_single_prop feed pd prop l1 sport cat = Inl (AttributeError ''erf'') \<and>
     analyze_single_prop feed pd prop l2 sport cat = Inl (AttributeError ''erf'')"
proof -
  have "np_std (feed pd (PropType.stat_key prop)) \<noteq> 0" using assms(3) by auto
  then have "\<not> length (feed pd (PropType.stat_key prop)) < 2"
    using np_std_short by blast
  then have len: "2 \<le> length (feed pd (PropType.stat_key prop))" by simp
  show ?thesis
    by (simp add: analyze_single_prop_raises [where feed = feed and pd = pd, OF assms(2) len])
qed

theorem no_probabilities_to_compare_witness:
  "(5::real) \<le> 8 \<and>
   map_of variance_factors (PropType.category prop_x) = Some (Factor 1) \<and>
   0 < np_std [1, 3] * 1 \<and>
   analyze_single_prop (\<lambda>_ _. [1, 3]) () prop_x 5 ''basketball'' ''scoring'' =
     Inl (AttributeError ''erf'') \<and>
   analyze_single_prop (\<lambda>_ _. [1, 3]) () prop_x 8 ''basketball'' ''scoring'' =
     Inl (AttributeError ''erf'')"
  using no_probabilities_to_compare [of 5 8 prop_x 1 "\<lambda>_ _. [1, 3]" "()" "''basketball''" "''scoring''"]
  by (simp add: prop_x_factor hist13_std)




text \<open>
  C8, as claimed, fails: a history of exactly one sample is not skipped, since the only
  test is for an empty history; the call goes on into the statistics.
\<close>

theorem single_sample_not_skipped:
  "length [5 :: real] < 2 \<and>
   analyze_single_prop (\<lambda>_ _. [5]) () prop_x 10 ''sport'' ''cat'' \<noteq> Inr None"
  by (simp add: analyze_single_prop_def calculate_trend_def)

text \<open>
  C8, amended: a (definition, line) pair whose history is empty is skipped: the evaluation
  returns \<open>None\<close> without raising, and the loop over the lines of such a definition
  leaves the list of kept evaluations unchanged.
\<close>

theorem empty_history_skipped:
  assumes "feed pd (PropType.stat_key prop) = []"
  shows "analyze_single_prop feed pd prop l sport cat = Inr None \<and>
         lines_loop feed pd prop sport cat ls valid_props = Inr valid_props"
  using assms by (simp add: analyze_single_prop_def lines_loop_no_history)

theorem empty_history_skipped_witness:
  "(\<lambda>_ _. []) () (PropType.stat_key prop_x) = ([] :: real list) \<and>
   analyze_single_prop (\<lambda>_ _. []) () prop_x 10 ''sport'' ''cat'' = Inr None \<and>
   lines_loop (\<lambda>_ _. []) () prop_x ''sport'' ''cat'' [Some 10, Some 20] [] = Inr []"
  using empty_history_skipped [of "\<lambda>_ _. []" "()" prop_x 10 "''sport''" "''cat''" "[Some 10, Some 20]" "[]"]
  by (simp del: lines_loop.simps)

section \<open>Lemmas about ParlayComposer\<close>

subsection \<open>Combinations and the two loops\<close>

lemma combs_too_short: "length xs < k \<Longrightarrow> combs xs k = []"
  by (induction xs k rule: combs.induct) simp_all

lemma combs_nonempty: "k \<le> length xs \<Longrightarrow> combs xs k \<noteq> []"
  by (induction xs k rule: combs.induct) simp_all


lemma parlay_has_no_probability_key:
  "getitem (analyze_parlay combo) ''probability'' = Inl (KeyError ''probability'')"
  by (simp add: getitem_def analyze_parlay_def Let_def)

lemma combo_loop_raises:
  "combo_loop (combo # rest) mp parlays = Inl (KeyError ''probability'')"
  by (simp add: parlay_has_no_probability_key Let_def)



lemma picks_loop_no_combination:
  "\<forall>n \<in> set ns. int (length vp) < n \<Longrightarrow> picks_loop vp ns mp parlays = Inr parlays"
proof (induction ns)
  case Nil
  show ?case by simp
next
  case (Cons n ns)
  then have n: "int (length vp) < n" by simp
  then have "combinations vp n = Inr []"
    by (simp add: combinations_def combs_too_short)
  with Cons show ?case by simp
qed

lemma sorted_by_ev_desc_Nil: "sorted_by_ev_desc [] = Inr []"
  by (simp add: sorted_by_ev_desc_def)





subsection \<open>The correlation sum\<close>

lemma football_passing_table:
  "football_passing =
     [((''passing_yards'', ''pass_attempts''), 0.8),
      ((''passing_yards'', ''pass_completions''), 0.85),
      ((''pass_attempts'', ''pass_completions''), 0.9)]"
  by (simp add: football_passing_def correlation_matrix_def dict_get_def)

lemma ordered_coefficient_diag: "ordered_coefficient k k = 0"
  by (simp add: ordered_coefficient_def football_passing_table dict_get_def)

lemma pair_coefficient_sum:
  "pair_coefficient a b = ordered_coefficient a b + ordered_coefficient b a"
  by (auto simp: pair_coefficient_def recorded_correlation_def ordered_coefficient_def
      football_passing_table dict_get_def)

lemma sum_list_concat_map:
  "sum_list (concat (map g xs)) = sum_list (map (\<lambda>x. sum_list (g x :: real list)) xs)"
  by (induction xs) simp_all

lemma total_correlation_all_pairs:
  "calculate_total_correlation props =
     sum_list (map (\<lambda>p. sum_list (map (\<lambda>p2.
        ordered_coefficient (prop_evaluation.stat_key p) (prop_evaluation.stat_key p2)) props)) props)"
proof -
  have inner: "(if p \<noteq> p2 then ordered_coefficient (prop_evaluation.stat_key p) (prop_evaluation.stat_key p2) else 0)
      = ordered_coefficient (prop_evaluation.stat_key p) (prop_evaluation.stat_key p2)" for p p2 :: prop_evaluation
    by (simp add: ordered_coefficient_diag)
  have "calculate_total_correlation props =
     sum_list (map (\<lambda>p. sum_list (map (\<lambda>p2. if p \<noteq> p2
        then ordered_coefficient (prop_evaluation.stat_key p) (prop_evaluation.stat_key p2) else 0) props)) props)"
    unfolding calculate_total_correlation_def ordered_coefficient_def [symmetric]
    by (simp add: sum_list_concat_map if_distrib [where f = sum_list] cong: if_cong)
  then show ?thesis by (simp only: inner)
qed

lemma total_correlation_Nil: "calculate_total_correlation [] = 0"
  by (simp add: calculate_total_correlation_def)

lemma total_correlation_Cons:
  "calculate_total_correlation (x # xs) =
     sum_list (map (\<lambda>q. pair_coefficient (prop_evaluation.stat_key x) (prop_evaluation.stat_key q)) xs)
       + calculate_total_correlation xs"
  by (simp add: total_correlation_all_pairs pair_coefficient_sum sum_list_addf
      ordered_coefficient_diag)

lemma sum_list_map_nth:
  "sum_list (map f xs) = (\<Sum>i<length xs. (f (xs ! i) :: real))"
proof -
  have "sum_list (map f xs) = (\<Sum>i = 0..<length (map f xs). map f xs ! i)"
    by (rule sum_list_sum_nth)
  also have "\<dots> = (\<Sum>i<length xs. f (xs ! i))"
    by (simp add: atLeast0LessThan)
  finally show ?thesis .
qed

lemma total_correlation_indexed:
  "calculate_total_correlation props =
     (\<Sum>i<length props. \<Sum>j<length props.
        if i = j then 0
        else ordered_coefficient (prop_evaluation.stat_key (props ! i))
               (prop_evaluation.stat_key (props ! j)))"
proof -
  have "(if i = j then 0
        else ordered_coefficient (prop_evaluation.stat_key (props ! i))
               (prop_evaluation.stat_key (props ! j)))
      = ordered_coefficient (prop_evaluation.stat_key (props ! i))
               (prop_evaluation.stat_key (props ! j))" for i j :: nat
    by (simp add: ordered_coefficient_diag)
  then show ?thesis
    by (simp only: total_correlation_all_pairs sum_list_map_nth)
qed

lemma foldl_fmul_Fin: "foldl fmul (Fin a) (map Fin ps) = Fin (a * prod_list ps)"
  by (induction ps arbitrary: a) (simp_all add: mult.assoc)

lemma combined_probability_finite:
  "calculate_combined_probability (map Fin ps) t = Fin (prod_list ps * (1 + t))"
  by (simp add: calculate_combined_probability_def foldl_fmul_Fin)

section \<open>Claims about ParlayComposer\<close>

text \<open>
  C10: when the list of evaluations has fewer elements than \<open>min_picks\<close> (the empty list
  in particular), no combination of any size from \<open>min_picks\<close> to \<open>max_picks\<close> exists,
  and \<open>generate_optimal_parlays\<close> returns the empty list without raising.
\<close>

theorem too_few_evaluations:
  assumes "int (length valid_props) < min_picks"
  shows "generate_optimal_parlays valid_props min_picks max_picks min_probability = Inr []"
proof -
  have "\<forall>n \<in> set [min_picks..max_picks]. int (length valid_props) < n"
    using assms by auto
  then have "picks_loop valid_props [min_picks..max_picks] min_probability [] = Inr []"
    by (rule picks_loop_no_combination)
  then show ?thesis by (simp add: generate_optimal_parlays_def sorted_by_ev_desc_Nil)
qed

theorem too_few_evaluations_witness:
  "int (length ([] :: prop_evaluation list)) < 2 \<and>
   generate_optimal_parlays [] 2 5 0.85 = Inr []"
  using too_few_evaluations [of "[]" 2 5 "0.85"] by simp

text \<open>
  C2 does not hold of the code: the filter step subscripts the parlay with
  \<open>'probability'\<close>, a key that \<open>_analyze_parlay\<close> never stores (it stores
  \<open>'combined_probability'\<close>). As soon as one combination is produced, that is whenever
  \<open>0 \<le> min_picks \<le> max_picks\<close> and \<open>min_picks\<close> does not exceed the number of
  evaluations, the call raises \<open>KeyError\<close> instead of comparing and keeping candidates.
\<close>

theorem probability_key_missing:
  assumes "0 \<le> min_picks" and "min_picks \<le> max_picks"
    and "min_picks \<le> int (length valid_props)"
  shows "generate_optimal_parlays valid_props min_picks max_picks min_probability =
           Inl (KeyError ''probability'')"
proof -
  have "nat min_picks \<le> length valid_props" using assms by simp
  then obtain c cs where c: "combs valid_props (nat min_picks) = c # cs"
    using combs_nonempty [of "nat min_picks" valid_props] by (cases "combs valid_props (nat min_picks)") auto
  have "[min_picks..max_picks] = min_picks # [min_picks + 1..max_picks]"
    using assms(2) by (rule upto_rec1)
  moreover have "combinations valid_props min_picks = Inr (c # cs)"
    using assms(1) c by (simp add: combinations_def)
  ultimately show ?thesis
    by (simp add: generate_optimal_parlays_def combo_loop_raises del: combo_loop.simps(2))
qed

theorem probability_key_missing_witness:
  "(0::int) \<le> 2 \<and> (2::int) \<le> 5 \<and> 2 \<le> int (length [leg_yards, leg_attempts]) \<and>
   generate_optimal_parlays [leg_yards, leg_attempts] 2 5 0.85 = Inl (KeyError ''probability'')"
  using probability_key_missing [of 2 5 "[leg_yards, leg_attempts]" "0.85"] by simp



text \<open>
  C6, as claimed, fails in its double counting: the table records each pair of statistic
  keys under one order only, so the two legs below, whose pair has the recorded coefficient
  0.8, have total correlation 0.8 and not twice that.
\<close>

theorem double_counting_counterexample:
  "recorded_correlation ''passing_yards'' ''pass_attempts'' = Some 0.8 \<and>
   calculate_total_correlation [leg_yards, leg_attempts] = 0.8 \<and>
   calculate_total_correlation [leg_yards, leg_attempts] \<noteq> 2 * 0.8"
  by (simp add: total_correlation_Cons total_correlation_Nil pair_coefficient_def
      recorded_correlation_def football_passing_table leg_yards_def leg_attempts_def leg_def)

text \<open>
  C6, amended: the total correlation is the sum, over the ordered pairs of legs at distinct
  positions, of the coefficient stored in the table under that ordered pair of statistic
  keys (0 when there is none); since only one order of a pair is stored, each unordered pair
  of legs contributes its recorded coefficient once: a leg added in front adds the pair
  coefficient with every other leg. The combined probability of legs with finite
  probabilities is their product times one plus the total correlation.
\<close>

theorem total_correlation_and_combined_probability:
  "calculate_total_correlation props =
     (\<Sum>i<length props. \<Sum>j<length props.
        if i = j then 0
        else ordered_coefficient (prop_evaluation.stat_key (props ! i))
               (prop_evaluation.stat_key (props ! j))) \<and>
   calculate_total_correlation (x # props) =
     sum_list (map (\<lambda>q. pair_coefficient (prop_evaluation.stat_key x) (prop_evaluation.stat_key q)) props)
       + calculate_total_correlation props \<and>
   (map probability props = map Fin ps \<longrightarrow>
      getitem (analyze_parlay props) ''combined_probability'' =
        Inr (PyFloat (Fin (prod_list ps * (1 + calculate_total_correlation props)))))"
  using total_correlation_indexed [of props] total_correlation_Cons [of x props]
  by (simp add: analyze_parlay_def getitem_def combined_probability_finite Let_def)

theorem total_correlation_and_combined_probability_witness:
  "map probability [leg_yards, leg_attempts] = map Fin [0.9, 0.9] \<and>
   calculate_total_correlation [leg_yards, leg_attempts] = 0.8 \<and>
   getitem (analyze_parlay [leg_yards, leg_attempts]) ''combined_probability'' =
     Inr (PyFloat (Fin (0.9 * 0.9 * (1 + 0.8))))"
  using total_correlation_and_combined_probability [of "[leg_yards, leg_attempts]" leg_yards "[0.9, 0.9]"]
  by (simp add: total_correlation_Cons total_correlation_Nil pair_coefficient_def
      recorded_correlation_def football_passing_table leg_yards_def leg_attempts_def leg_def
      lessThan_Suc)

section \<open>Lemmas about PropEvaluator\<close>

lemma filter_is_not_an_attribute:
  "self_getattr ''_filter_correlated_props'' = Inl (AttributeError ''_filter_correlated_props'')"
  by (simp add: self_getattr_def instance_attributes_def class_attributes_def)

lemma props_loop_no_history:
  assumes "\<forall>k. feed pd k = []"
  shows "props_loop feed pd sport cat props valid_props = Inr valid_props"
  using assms by (induction props) (simp_all add: lines_loop_no_history)

lemma categories_loop_no_history:
  assumes "\<forall>k. feed pd k = []"
  shows "categories_loop feed pd sport cats valid_props = Inr valid_props"
proof (induction cats)
  case Nil
  show ?case by simp
next
  case (Cons c cs)
  obtain cat props where c: "c = (cat, props)" by (cases c)
  with Cons assms show ?case by (simp add: props_loop_no_history)
qed

lemma catalog_sports:
  "sport \<in> set (map fst SPORTS_PROPS) \<Longrightarrow> sport = ''football'' \<or> sport = ''basketball''"
  by (auto simp: SPORTS_PROPS_def)

lemma first_prop_raises:
  assumes "sport \<in> set (map fst SPORTS_PROPS)" and "\<forall>k. 2 \<le> length (feed pd k)"
  shows "\<exists>cats. map_of SPORTS_PROPS sport = Some cats \<and>
           categories_loop feed pd sport cats [] = Inl (AttributeError ''erf'')"
proof -
  have std: "map_of variance_factors ''standard'' = Some (Factor 1)"
    by (simp add: variance_factors_def)
  from catalog_sports [OF assms(1)] show ?thesis
  proof
    assume "sport = ''football''"
    then show ?thesis using assms(2)
      by (simp add: SPORTS_PROPS_def candidate_lines_def new_prop_def
          analyze_single_prop_raises [where vf = 1] std)
  next
    assume "sport = ''basketball''"
    then show ?thesis using assms(2)
      by (simp add: SPORTS_PROPS_def candidate_lines_def new_prop_def
          analyze_single_prop_raises [where vf = 1] std)
  qed
qed

section \<open>Claims about PropEvaluator\<close>

text \<open>
  C1 does not hold of the code: \<open>analyze_props\<close> ends by calling
  \<open>self._filter_correlated_props\<close>, a name that neither the class nor the instance
  binds, so no call returns survivors. When the feed has no history for any statistic the
  loops complete and the call raises \<open>AttributeError\<close> at line 93; when every history has
  two or more samples, the first evaluation already raises \<open>AttributeError\<close> for
  \<open>np.erf\<close> (the defect of C4) and line 93 is not reached.
\<close>

theorem analyze_props_raises:
  "(\<forall>survivors. analyze_props feed pd sport min_correlation \<noteq> Inr survivors) \<and>
   (sport \<in> set (map fst SPORTS_PROPS) \<longrightarrow> (\<forall>k. feed pd k = []) \<longrightarrow>
      analyze_props feed pd sport min_correlation =
        Inl (AttributeError ''_filter_correlated_props'')) \<and>
   (sport \<in> set (map fst SPORTS_PROPS) \<longrightarrow> (\<forall>k. 2 \<le> length (feed pd k)) \<longrightarrow>
      analyze_props feed pd sport min_correlation = Inl (AttributeError ''erf''))"
proof (intro conjI allI impI)
  fix survivors
  show "analyze_props feed pd sport min_correlation \<noteq> Inr survivors"
    by (simp add: analyze_props_def filter_is_not_an_attribute split: option.splits sum.splits)
next
  assume "sport \<in> set (map fst SPORTS_PROPS)" and feed: "\<forall>k. feed pd k = []"
  then obtain cats where cats: "map_of SPORTS_PROPS sport = Some cats"
    by (cases "map_of SPORTS_PROPS sport") (auto simp: map_of_eq_None_iff)
  from feed have "categories_loop feed pd sport cats [] = Inr []"
    by (rule categories_loop_no_history)
  with cats show "analyze_props feed pd sport min_correlation =
        Inl (AttributeError ''_filter_correlated_props'')"
    by (simp add: analyze_props_def filter_is_not_an_attribute)
next
  assume "sport \<in> set (map fst SPORTS_PROPS)" and "\<forall>k. 2 \<le> length (feed pd k)"
  then obtain cats where "map_of SPORTS_PROPS sport = Some cats"
    and "categories_loop feed pd sport cats [] = Inl (AttributeError ''erf'')"
    using first_prop_raises [of sport feed pd] by blast
  then show "analyze_props feed pd sport min_correlation = Inl (AttributeError ''erf'')"
    by (simp add: analyze_props_def)
qed

theorem analyze_props_raises_witness:
  "''football'' \<in> set (map fst SPORTS_PROPS) \<and>
   analyze_props (\<lambda>_ _. []) () ''football'' (- 0.2) =
     Inl (AttributeError ''_filter_correlated_props'') \<and>
   analyze_props (\<lambda>_ _. [1, 3]) () ''football'' (- 0.2) = Inl (AttributeError ''erf'')"
proof -
  have fb: "''football'' \<in> set (map fst SPORTS_PROPS)" by (simp add: SPORTS_PROPS_def)
  from analyze_props_raises [of "\<lambda>_ _. []" "()" "''football''" "- 0.2"] fb
  have a: "analyze_props (\<lambda>_ _. []) () ''football'' (- 0.2) =
     Inl (AttributeError ''_filter_correlated_props'')" by simp
  from analyze_props_raises [of "\<lambda>_ _. [1, 3]" "()" "''football''" "- 0.2"] fb
  have b: "analyze_props (\<lambda>_ _. [1, 3]) () ''football'' (- 0.2) = Inl (AttributeError ''erf'')"
    by simp
  from fb a b show ?thesis by blast
qed

end
